theory Spec2Isabelle
  imports Complex_Main
begin

section \<open>Python values\<close>

text \<open>
  A Python float is a binary64 value. A finite one is kept as the exact rational it
  denotes, with \<open>-0.0\<close> apart from \<open>0.0\<close>; the other values are the two infinities
  (the flag says negative) and NaN.
\<close>

datatype finite64 = Num rat | NegZero

datatype pyfloat = Fin finite64 | Inf bool | NaN

fun value_of :: "finite64 \<Rightarrow> rat" where
  "value_of (Num q) = q"
| "value_of NegZero = 0"

fun sign_bit :: "finite64 \<Rightarrow> bool" where
  "sign_bit (Num q) = (q < 0)"
| "sign_bit NegZero = True"

text \<open>What \<open>json.load\<close> returns: \<open>JObj\<close> holds the items of the parsed dict.\<close>

datatype json =
    JNull
  | JBool bool
  | JInt int
  | JFloat pyfloat
  | JStr string
  | JArr "json list"
  | JObj "(string \<times> json) list"

datatype pyerror =
    FileNotFoundError string
  | OSError string
  | JSONDecodeError string
  | UnicodeDecodeError string
  | KeyError string
  | TypeError
  | IndexError
  | ValueError

text \<open>
  A run stops either because Python raises, or because the data left the part of
  matplotlib that is modelled here (\<open>Beyond_Model\<close>): bar heights that are not
  numbers, not finite, or integers too large to be read back unchanged from a
  NumPy array.
\<close>

datatype abort = Raise pyerror | Beyond_Model

definition bnd :: "abort + 'a \<Rightarrow> ('a \<Rightarrow> abort + 'b) \<Rightarrow> abort + 'b" where
  "bnd m f = (case m of Inl e \<Rightarrow> Inl e | Inr x \<Rightarrow> f x)"

subsection \<open>Rounding to binary64\<close>

function bit_length :: "int \<Rightarrow> int" where
  "bit_length n = (if n \<le> 0 then 0 else 1 + bit_length (n div 2))"
  by pat_completeness auto
termination
  by (relation "measure nat") auto

declare bit_length.simps [simp del]

definition floor_log2 :: "rat \<Rightarrow> int" where
  "floor_log2 q =
     (let (n, d) = quotient_of q;
          e = bit_length n - bit_length d
      in if 2 powi e \<le> q then e else e - 1)"

definition round_half_even :: "rat \<Rightarrow> int" where
  "round_half_even q =
     (let f = \<lfloor>q\<rfloor>; r = q - of_int f
      in if r < 1 / 2 then f
         else if 1 / 2 < r then f + 1
         else if even f then f else f + 1)"

text \<open>
  The binary64 magnitude nearest to a non-negative rational, ties to even: 53
  significant bits, exponents from \<open>-1022\<close> (below it the spacing stays \<open>2^-1074\<close>),
  and \<open>None\<close> when the result would reach \<open>2^1024\<close> (overflow to infinity).
\<close>

definition round_magnitude :: "rat \<Rightarrow> rat option" where
  "round_magnitude q =
     (if q = 0 then Some 0
      else let e = max (floor_log2 q) (- 1022) - 52;
               r = of_int (round_half_even (q / 2 powi e)) * 2 powi e
           in if 2 ^ 1024 \<le> r then None else Some r)"

definition signed :: "bool \<Rightarrow> rat \<Rightarrow> finite64" where
  "signed s m = (if s then (if m = 0 then NegZero else Num (- m)) else Num m)"

definition round_signed :: "bool \<Rightarrow> rat \<Rightarrow> pyfloat" where
  "round_signed s m =
     (case round_magnitude m of
        None \<Rightarrow> Inf s
      | Some r \<Rightarrow> Fin (signed s r))"

text \<open>The float a decimal literal of a JSON file is parsed to (\<open>float("0.002")\<close>).\<close>

definition float_of_rat :: "rat \<Rightarrow> pyfloat" where
  "float_of_rat q = round_signed (q < 0) \<bar>q\<bar>"

text \<open>\<open>x * 1000\<close> for a float \<open>x\<close>: the exact product, rounded.\<close>

fun float_mul_1000 :: "pyfloat \<Rightarrow> pyfloat" where
  "float_mul_1000 (Fin (Num q)) = round_signed (q < 0) (\<bar>q\<bar> * 1000)"
| "float_mul_1000 (Fin NegZero) = Fin NegZero"
| "float_mul_1000 (Inf s) = Inf s"
| "float_mul_1000 NaN = NaN"

text \<open>
  \<open>v * 1000\<close> for any value a JSON document can hold: numbers multiply (\<open>bool\<close> is an
  \<open>int\<close>), strings and lists repeat, \<open>None\<close> and dicts raise \<open>TypeError\<close>.
\<close>

fun mul_1000 :: "json \<Rightarrow> abort + json" where
  "mul_1000 (JInt n) = Inr (JInt (n * 1000))"
| "mul_1000 (JFloat x) = Inr (JFloat (float_mul_1000 x))"
| "mul_1000 (JBool b) = Inr (JInt (if b then 1000 else 0))"
| "mul_1000 (JStr s) = Inr (JStr (concat (replicate 1000 s)))"
| "mul_1000 (JArr xs) = Inr (JArr (concat (replicate 1000 xs)))"
| "mul_1000 JNull = Inl (Raise TypeError)"
| "mul_1000 (JObj kvs) = Inl (Raise TypeError)"

text \<open>\<open>d[key]\<close> with a string key: only a dict can be subscripted that way.\<close>

fun getitem :: "json \<Rightarrow> string \<Rightarrow> abort + json" where
  "getitem (JObj kvs) k =
     (case map_of kvs k of
        None \<Rightarrow> Inl (Raise (KeyError k))
      | Some v \<Rightarrow> Inr v)"
| "getitem _ k = Inl (Raise TypeError)"

text \<open>\<open>xs[i]\<close> for a list and a non-negative index.\<close>

definition list_item :: "'a list \<Rightarrow> nat \<Rightarrow> abort + 'a" where
  "list_item xs i = (if i < length xs then Inr (xs ! i) else Inl (Raise IndexError))"

section \<open>The chart\<close>

text \<open>
  matplotlib is modelled by what the script hands to it. A bar is the rectangle
  \<open>ax.bar\<close> creates: \<open>bar_x\<close> is its left edge (\<open>get_x()\<close>), and \<open>ax.bar\<close> centres
  the rectangle on the position it is given. Coordinates are exact rationals.
\<close>

record bar =
  bar_x :: rat
  bar_width :: rat
  bar_height :: finite64

record container =
  label :: string
  patches :: "bar list"

record text_label =
  text_x :: rat
  text_y :: finite64
  text_s :: string

record panel =
  ylabel :: string
  title :: string
  xticks :: "rat list"
  xticklabels :: "string list"
  containers :: "container list"
  texts :: "text_label list"

record figure =
  ax1 :: panel
  ax2 :: panel

section \<open>Files and the console\<close>

text \<open>
  A path holds nothing (\<open>None\<close>), a file that cannot be opened, text that is not JSON,
  a JSON document (kept as the value \<open>json.load\<close> gives for it), or a saved figure.
\<close>

datatype file_content = Unreadable | Malformed | Document json | Image figure

record world =
  files :: "string \<Rightarrow> file_content option"
  stdout :: "string list"

definition read_json_file :: "(string \<Rightarrow> file_content option) \<Rightarrow> string \<Rightarrow> abort + json" where
  "read_json_file fs filename =
     (case fs filename of
        None \<Rightarrow> Inl (Raise (FileNotFoundError filename))
      | Some Unreadable \<Rightarrow> Inl (Raise (OSError filename))
      | Some Malformed \<Rightarrow> Inl (Raise (JSONDecodeError filename))
      | Some (Image fig) \<Rightarrow> Inl (Raise (UnicodeDecodeError filename))
      | Some (Document d) \<Rightarrow> Inr d)"

definition frameworks :: "(string \<times> string list) list" where
  "frameworks =
     [(''Bun'', [''bun_no_schema.json'', ''bun_schema.json'']),
      (''Elysia'', [''elysia_no_schema.json'', ''elysia_schema.json'']),
      (''Encore'', [''encore_no_schema.json'', ''encore_schema.json'']),
      (''Express'', [''express_no_schema.json'', ''express_schema.json'']),
      (''Fastify'', [''fastify_no_schema.json'', ''fastify_schema.json'']),
      (''Fastify v5'', [''fastify-v5_no_schema.json'', ''fastify-v5_schema.json'']),
      (''Hono'', [''hono_no_schema.json'', ''hono_schema.json''])]"

section \<open>Collecting the data\<close>

record series =
  rps_no_schema :: "json list"
  rps_schema :: "json list"
  latency_no_schema :: "json list"
  latency_schema :: "json list"
  framework_names :: "string list"

definition no_series :: series where
  "no_series =
     \<lparr>rps_no_schema = [], rps_schema = [], latency_no_schema = [],
      latency_schema = [], framework_names = []\<rparr>"

text \<open>\<open>data["summary"][key]\<close>\<close>

definition summary_item :: "json \<Rightarrow> string \<Rightarrow> abort + json" where
  "summary_item data k = bnd (getitem data ''summary'') (\<lambda>s. getitem s k)"

text \<open>One pass of the loop body, for the entry \<open>(framework, files)\<close>.\<close>

definition collect_entry ::
  "(string \<Rightarrow> file_content option) \<Rightarrow> string \<times> string list \<Rightarrow> series \<Rightarrow> abort + series" where
  "collect_entry fs entry s0 =
     (let s1 = s0\<lparr>framework_names := framework_names s0 @ [fst entry]\<rparr> in
      bnd (list_item (snd entry) 0) (\<lambda>f0.
      bnd (read_json_file fs f0) (\<lambda>data.
      bnd (summary_item data ''requestsPerSec'') (\<lambda>r.
      let s2 = s1\<lparr>rps_no_schema := rps_no_schema s1 @ [r]\<rparr> in
      bnd (summary_item data ''average'') (\<lambda>a.
      bnd (mul_1000 a) (\<lambda>l.
      let s3 = s2\<lparr>latency_no_schema := latency_no_schema s2 @ [l]\<rparr> in
      bnd (list_item (snd entry) 1) (\<lambda>f1.
      bnd (read_json_file fs f1) (\<lambda>data.
      bnd (summary_item data ''requestsPerSec'') (\<lambda>r.
      let s4 = s3\<lparr>rps_schema := rps_schema s3 @ [r]\<rparr> in
      bnd (summary_item data ''average'') (\<lambda>a.
      bnd (mul_1000 a) (\<lambda>l.
      Inr (s4\<lparr>latency_schema := latency_schema s4 @ [l]\<rparr>))))))))))))"

fun collect ::
  "(string \<Rightarrow> file_content option) \<Rightarrow> (string \<times> string list) list \<Rightarrow> series \<Rightarrow> abort + series" where
  "collect fs [] s = Inr s"
| "collect fs (entry # entries) s = bnd (collect_entry fs entry s) (collect fs entries)"

section \<open>Value labels\<close>

definition digit_char :: "nat \<Rightarrow> char" where
  "digit_char d = ''0123456789'' ! d"

function dec :: "nat \<Rightarrow> string" where
  "dec n = (if n < 10 then [digit_char n] else dec (n div 10) @ [digit_char (n mod 10)])"
  by pat_completeness auto
termination
  by (relation "measure id") auto

declare dec.simps [simp del]

text \<open>The comma of the \<open>,\<close> format option, on the digits from the least significant.\<close>

fun group3_rev :: "string \<Rightarrow> string" where
  "group3_rev (a # b # c # d # ds) = a # b # c # CHR '','' # group3_rev (d # ds)"
| "group3_rev ds = ds"

text \<open>\<open>f"{n:,}"\<close> for an int \<open>n\<close>.\<close>

definition format_grouped :: "int \<Rightarrow> string" where
  "format_grouped n =
     (if n < 0 then ''-'' else []) @ rev (group3_rev (rev (dec (nat \<bar>n\<bar>))))"

text \<open>\<open>int(height)\<close> for a finite float.\<close>

fun py_int :: "finite64 \<Rightarrow> int" where
  "py_int (Num q) = (if q < 0 then - \<lfloor>- q\<rfloor> else \<lfloor>q\<rfloor>)"
| "py_int NegZero = 0"

text \<open>
  \<open>f"{height:.2f}"\<close> for a finite float: the exact value rounded to hundredths, ties
  to even, after the sign of the float.
\<close>

definition format_2f :: "finite64 \<Rightarrow> string" where
  "format_2f h =
     (let n = nat (round_half_even (\<bar>value_of h\<bar> * 100))
      in (if sign_bit h then ''-'' else []) @ dec (n div 100) @ ''.''
           @ [digit_char (n mod 100 div 10), digit_char (n mod 10)])"

section \<open>Drawing\<close>

text \<open>
  The heights \<open>ax.bar\<close> keeps, as binary64: a float as it is, an int when it has an
  exact binary64 value whatever array type NumPy picks for the list.
\<close>

fun as_float64 :: "json \<Rightarrow> abort + finite64" where
  "as_float64 (JInt n) =
     (if \<bar>n\<bar> \<le> 2 ^ 53 then Inr (Num (of_int n)) else Inl Beyond_Model)"
| "as_float64 (JFloat (Fin h)) = Inr h"
| "as_float64 _ = Inl Beyond_Model"

fun heights :: "json list \<Rightarrow> abort + finite64 list" where
  "heights [] = Inr []"
| "heights (v # vs) =
     bnd (as_float64 v) (\<lambda>h. bnd (heights vs) (\<lambda>hs. Inr (h # hs)))"

definition np_arange :: "nat \<Rightarrow> rat list" where
  "np_arange n = map of_nat [0..<n]"

text \<open>\<open>ax.bar(x, height, width, label=...)\<close>: one rectangle per position, centred on it.\<close>

definition ax_bar :: "rat list \<Rightarrow> json list \<Rightarrow> rat \<Rightarrow> string \<Rightarrow> abort + container" where
  "ax_bar x height width lbl =
     bnd (heights height) (\<lambda>hs.
     if length x \<noteq> length hs then Inl (Raise ValueError)
     else Inr \<lparr>label = lbl,
               patches = map (\<lambda>(c, h). \<lparr>bar_x = c - width / 2, bar_width = width,
                                          bar_height = h\<rparr>) (zip x hs)\<rparr>)"

text \<open>The two nested loops that put a value label on top of every bar.\<close>

definition value_labels :: "(finite64 \<Rightarrow> string) \<Rightarrow> container list \<Rightarrow> text_label list" where
  "value_labels fmt cs =
     concat (map (\<lambda>bars. map (\<lambda>b. \<lparr>text_x = bar_x b + bar_width b / 2,
                                        text_y = bar_height b,
                                        text_s = fmt (bar_height b)\<rparr>) (patches bars)) cs)"

definition render :: "series \<Rightarrow> abort + figure" where
  "render s =
     (let width = 35 / 100;
          x = np_arange (length (framework_names s)) in
      bnd (ax_bar (map (\<lambda>v. v - width / 2) x) (rps_no_schema s) width ''No Schema'') (\<lambda>rps1.
      bnd (ax_bar (map (\<lambda>v. v + width / 2) x) (rps_schema s) width ''With Schema'') (\<lambda>rps2.
      bnd (ax_bar (map (\<lambda>v. v - width / 2) x) (latency_no_schema s) width ''No Schema'') (\<lambda>lat1.
      bnd (ax_bar (map (\<lambda>v. v + width / 2) x) (latency_schema s) width ''With Schema'') (\<lambda>lat2.
      Inr \<lparr>ax1 = \<lparr>ylabel = ''Requests per Second'',
                   title = ''Framework Performance Comparison - Requests per Second (Higher is Better)'',
                   xticks = x,
                   xticklabels = framework_names s,
                   containers = [rps1, rps2],
                   texts = value_labels (\<lambda>height. format_grouped (py_int height)) [rps1, rps2]\<rparr>,
           ax2 = \<lparr>ylabel = ''Average Latency (ms)'',
                   title = ''Framework Performance Comparison - Average Latency (Lower is Better)'',
                   xticks = x,
                   xticklabels = framework_names s,
                   containers = [lat1, lat2],
                   texts = value_labels format_2f [lat1, lat2]\<rparr>\<rparr>)))))"

section \<open>The script\<close>

definition output_path :: string where
  "output_path = ''framework_comparison.png''"

definition confirmation :: string where
  "confirmation = ''Chart has been saved as '' @ [CHR 0x27] @ output_path @ [CHR 0x27]"

text \<open>Everything before \<open>plt.savefig\<close>: the figure, or what stopped the run.\<close>

definition build_figure :: "(string \<Rightarrow> file_content option) \<Rightarrow> abort + figure" where
  "build_figure fs = bnd (collect fs frameworks no_series) render"

text \<open>
  The whole module, from a world to the world it leaves: what ended the run early, if
  anything did, and the files and console after it.
\<close>

definition script :: "world \<Rightarrow> abort option \<times> world" where
  "script w =
     (case build_figure (files w) of
        Inl e \<Rightarrow> (Some e, w)
      | Inr fig \<Rightarrow>
          (None, w\<lparr>files := (files w)(output_path \<mapsto> Image fig),
                    stdout := stdout w @ [confirmation]\<rparr>))"

section \<open>Reading one metric\<close>

text \<open>
  \<open>read_json_file(files[i])["summary"][k]\<close> for one entry of \<open>frameworks\<close>, and the
  same with \<open>k = "average"\<close> times 1000: the two expressions the loop appends.
\<close>

definition metric ::
  "(string \<Rightarrow> file_content option) \<Rightarrow> string \<times> string list \<Rightarrow> nat \<Rightarrow> string \<Rightarrow> abort + json" where
  "metric fs entry i k =
     bnd (list_item (snd entry) i) (\<lambda>f. bnd (read_json_file fs f) (\<lambda>data. summary_item data k))"

definition latency_ms ::
  "(string \<Rightarrow> file_content option) \<Rightarrow> string \<times> string list \<Rightarrow> nat \<Rightarrow> abort + json" where
  "latency_ms fs entry i = bnd (metric fs entry i ''average'') mul_1000"

text \<open>A result that, when it stops the run, stops it by a Python exception.\<close>

definition raises_only :: "abort + 'a \<Rightarrow> bool" where
  "raises_only m = (\<forall>a. m = Inl a \<longrightarrow> (\<exists>e. a = Raise e))"

section \<open>A sample run\<close>

definition result_document :: "json \<Rightarrow> json \<Rightarrow> file_content" where
  "result_document rps avg =
     Document (JObj [(''summary'', JObj [(''requestsPerSec'', rps), (''average'', avg)])])"

definition sample_files :: "string \<Rightarrow> file_content option" where
  "sample_files = map_of
     [(''bun_no_schema.json'', result_document (JInt 50000) (JFloat (float_of_rat (2 / 1000)))),
      (''bun_schema.json'', result_document (JInt 42000) (JFloat (float_of_rat (25 / 10000)))),
      (''elysia_no_schema.json'',
         result_document (JFloat (float_of_rat (500009 / 10))) (JFloat (float_of_rat (2 / 1000)))),
      (''elysia_schema.json'', result_document (JInt 1234567) (JFloat (float_of_rat (25 / 10000)))),
      (''encore_no_schema.json'', result_document (JInt 61000) (JFloat (float_of_rat (2 / 1000)))),
      (''encore_schema.json'', result_document (JInt 60000) (JFloat (float_of_rat (25 / 10000)))),
      (''express_no_schema.json'', result_document (JInt 9000) (JFloat (float_of_rat (2 / 1000)))),
      (''express_schema.json'', result_document (JInt 900) (JInt 1)),
      (''fastify_no_schema.json'', result_document (JInt 30000) (JFloat (float_of_rat (2 / 1000)))),
      (''fastify_schema.json'', result_document (JInt 29000) (JFloat (float_of_rat (25 / 10000)))),
      (''fastify-v5_no_schema.json'', result_document (JInt 31000) (JFloat (float_of_rat (2 / 1000)))),
      (''fastify-v5_schema.json'', result_document (JInt 30500) (JFloat (float_of_rat (25 / 10000)))),
      (''hono_no_schema.json'', result_document (JInt 45000) (JFloat (float_of_rat (2 / 1000)))),
      (''hono_schema.json'', result_document (JInt 0) (JFloat (float_of_rat (25 / 10000))))]"

definition sample_world :: world where
  "sample_world = \<lparr>files = sample_files, stdout = []\<rparr>"

definition sample_series :: series where
  "sample_series =
     \<lparr>rps_no_schema =
        [JInt 50000, JFloat (Fin (Num (6872071368658125 / 137438953472))), JInt 61000,
         JInt 9000, JInt 30000, JInt 31000, JInt 45000],
      rps_schema =
        [JInt 42000, JInt 1234567, JInt 60000, JInt 900, JInt 29000, JInt 30500, JInt 0],
      latency_no_schema =
        [JFloat (Fin (Num 2)), JFloat (Fin (Num 2)), JFloat (Fin (Num 2)), JFloat (Fin (Num 2)),
         JFloat (Fin (Num 2)), JFloat (Fin (Num 2)), JFloat (Fin (Num 2))],
      latency_schema =
        [JFloat (Fin (Num (5 / 2))), JFloat (Fin (Num (5 / 2))), JFloat (Fin (Num (5 / 2))),
         JInt 1000, JFloat (Fin (Num (5 / 2))), JFloat (Fin (Num (5 / 2))),
         JFloat (Fin (Num (5 / 2)))],
      framework_names =
        [''Bun'', ''Elysia'', ''Encore'', ''Express'', ''Fastify'', ''Fastify v5'', ''Hono'']\<rparr>"

section \<open>The result monad\<close>

lemma bnd_Inr_iff: "bnd m f = Inr y \<longleftrightarrow> (\<exists>x. m = Inr x \<and> f x = Inr y)"
  by (cases m) (simp_all add: bnd_def)

lemma bnd_Inl_iff: "bnd m f = Inl e \<longleftrightarrow> m = Inl e \<or> (\<exists>x. m = Inr x \<and> f x = Inl e)"
  by (cases m) (simp_all add: bnd_def)

lemma collect_entry_Inr:
  "collect_entry fs entry s = Inr s' \<longleftrightarrow>
     (\<exists>r0 l0 r1 l1.
        metric fs entry 0 ''requestsPerSec'' = Inr r0 \<and> latency_ms fs entry 0 = Inr l0 \<and>
        metric fs entry 1 ''requestsPerSec'' = Inr r1 \<and> latency_ms fs entry 1 = Inr l1 \<and>
        s' = s\<lparr>rps_no_schema := rps_no_schema s @ [r0],
               rps_schema := rps_schema s @ [r1],
               latency_no_schema := latency_no_schema s @ [l0],
               latency_schema := latency_schema s @ [l1],
               framework_names := framework_names s @ [fst entry]\<rparr>)"
  unfolding collect_entry_def metric_def latency_ms_def Let_def bnd_Inr_iff
  by (auto simp: bnd_Inr_iff)

lemma collect_append:
  "collect fs (xs @ ys) s = bnd (collect fs xs s) (collect fs ys)"
proof (induction xs arbitrary: s)
  case Nil
  show ?case by (simp add: bnd_def)
next
  case (Cons x xs)
  show ?case by (cases "collect_entry fs x s") (simp_all add: bnd_def Cons.IH)
qed

lemma collect_Inr:
  "collect fs es s = Inr s' \<Longrightarrow>
     (\<exists>r0s l0s r1s l1s.
        map (\<lambda>e. metric fs e 0 ''requestsPerSec'') es = map Inr r0s \<and>
        map (\<lambda>e. latency_ms fs e 0) es = map Inr l0s \<and>
        map (\<lambda>e. metric fs e 1 ''requestsPerSec'') es = map Inr r1s \<and>
        map (\<lambda>e. latency_ms fs e 1) es = map Inr l1s \<and>
        s' = \<lparr>rps_no_schema = rps_no_schema s @ r0s,
               rps_schema = rps_schema s @ r1s,
               latency_no_schema = latency_no_schema s @ l0s,
               latency_schema = latency_schema s @ l1s,
               framework_names = framework_names s @ map fst es\<rparr>)"
proof (induction es arbitrary: s)
  case Nil
  then show ?case by simp
next
  case (Cons e es)
  from Cons.prems obtain s1 where e: "collect_entry fs e s = Inr s1"
    and rest: "collect fs es s1 = Inr s'"
    by (auto simp: bnd_Inr_iff)
  from e obtain r0 l0 r1 l1 where
    m: "metric fs e 0 ''requestsPerSec'' = Inr r0" "latency_ms fs e 0 = Inr l0"
       "metric fs e 1 ''requestsPerSec'' = Inr r1" "latency_ms fs e 1 = Inr l1"
    and s1: "s1 = s\<lparr>rps_no_schema := rps_no_schema s @ [r0],
               rps_schema := rps_schema s @ [r1],
               latency_no_schema := latency_no_schema s @ [l0],
               latency_schema := latency_schema s @ [l1],
               framework_names := framework_names s @ [fst e]\<rparr>"
    unfolding collect_entry_Inr by blast
  from Cons.IH [OF rest] obtain r0s l0s r1s l1s where
    ih: "map (\<lambda>e. metric fs e 0 ''requestsPerSec'') es = map Inr r0s"
        "map (\<lambda>e. latency_ms fs e 0) es = map Inr l0s"
        "map (\<lambda>e. metric fs e 1 ''requestsPerSec'') es = map Inr r1s"
        "map (\<lambda>e. latency_ms fs e 1) es = map Inr l1s"
    and s': "s' = \<lparr>rps_no_schema = rps_no_schema s1 @ r0s,
               rps_schema = rps_schema s1 @ r1s,
               latency_no_schema = latency_no_schema s1 @ l0s,
               latency_schema = latency_schema s1 @ l1s,
               framework_names = framework_names s1 @ map fst es\<rparr>"
    by blast
  show ?case
    apply (rule exI [of _ "r0 # r0s"], rule exI [of _ "l0 # l0s"])
    apply (rule exI [of _ "r1 # r1s"], rule exI [of _ "l1 # l1s"])
    using m ih s' s1 by simp
qed


lemma map_eq_map_Inr_nth:
  "map f xs = map Inr ys \<Longrightarrow> length ys = length xs \<and> (\<forall>i<length xs. f (xs ! i) = Inr (ys ! i))"
proof -
  assume eq: "map f xs = map Inr ys"
  then have len: "length ys = length xs"
    using length_map by metis
  have "f (xs ! i) = Inr (ys ! i)" if "i < length xs" for i
  proof -
    have "map f xs ! i = map Inr ys ! i" using eq by simp
    then show ?thesis using that len by simp
  qed
  with len show ?thesis by blast
qed

lemma collect_from_empty:
  assumes "collect fs es no_series = Inr s"
  shows "framework_names s = map fst es"
    and "length (rps_no_schema s) = length es"
    and "length (rps_schema s) = length es"
    and "length (latency_no_schema s) = length es"
    and "length (latency_schema s) = length es"
    and "\<forall>i<length es. metric fs (es ! i) 0 ''requestsPerSec'' = Inr (rps_no_schema s ! i)"
    and "\<forall>i<length es. metric fs (es ! i) 1 ''requestsPerSec'' = Inr (rps_schema s ! i)"
    and "\<forall>i<length es. latency_ms fs (es ! i) 0 = Inr (latency_no_schema s ! i)"
    and "\<forall>i<length es. latency_ms fs (es ! i) 1 = Inr (latency_schema s ! i)"
proof -
  from collect_Inr [OF assms] obtain r0s l0s r1s l1s where
    m: "map (\<lambda>e. metric fs e 0 ''requestsPerSec'') es = map Inr r0s"
       "map (\<lambda>e. latency_ms fs e 0) es = map Inr l0s"
       "map (\<lambda>e. metric fs e 1 ''requestsPerSec'') es = map Inr r1s"
       "map (\<lambda>e. latency_ms fs e 1) es = map Inr l1s"
    and s: "s = \<lparr>rps_no_schema = r0s, rps_schema = r1s, latency_no_schema = l0s,
                 latency_schema = l1s, framework_names = map fst es\<rparr>"
    by (auto simp: no_series_def)
  show "framework_names s = map fst es" by (simp add: s)
  show "length (rps_no_schema s) = length es"
    using map_eq_map_Inr_nth [OF m(1)] by (simp add: s)
  show "length (rps_schema s) = length es"
    using map_eq_map_Inr_nth [OF m(3)] by (simp add: s)
  show "length (latency_no_schema s) = length es"
    using map_eq_map_Inr_nth [OF m(2)] by (simp add: s)
  show "length (latency_schema s) = length es"
    using map_eq_map_Inr_nth [OF m(4)] by (simp add: s)
  show "\<forall>i<length es. metric fs (es ! i) 0 ''requestsPerSec'' = Inr (rps_no_schema s ! i)"
    using map_eq_map_Inr_nth [OF m(1)] by (simp add: s)
  show "\<forall>i<length es. metric fs (es ! i) 1 ''requestsPerSec'' = Inr (rps_schema s ! i)"
    using map_eq_map_Inr_nth [OF m(3)] by (simp add: s)
  show "\<forall>i<length es. latency_ms fs (es ! i) 0 = Inr (latency_no_schema s ! i)"
    using map_eq_map_Inr_nth [OF m(2)] by (simp add: s)
  show "\<forall>i<length es. latency_ms fs (es ! i) 1 = Inr (latency_schema s ! i)"
    using map_eq_map_Inr_nth [OF m(4)] by (simp add: s)
qed

lemma heights_Inr: "heights vs = Inr hs \<longleftrightarrow> map as_float64 vs = map Inr hs"
proof (induction vs arbitrary: hs)
  case Nil
  show ?case by auto
next
  case (Cons v vs)
  show ?case
  proof (cases hs)
    case Nil
    then show ?thesis by (auto simp: bnd_Inr_iff)
  next
    case (Cons h hs')
    then show ?thesis using Cons.IH [of hs'] by (auto simp: bnd_Inr_iff)
  qed
qed

lemma ax_bar_Inr:
  assumes "ax_bar x height width lbl = Inr c"
  shows "label c = lbl"
    and "length (patches c) = length x"
    and "length height = length x"
    and "\<forall>i<length x. bar_x (patches c ! i) = x ! i - width / 2
            \<and> bar_width (patches c ! i) = width
            \<and> as_float64 (height ! i) = Inr (bar_height (patches c ! i))"
proof -
  from assms obtain hs where hs: "heights height = Inr hs" and len: "length x = length hs"
    and c: "c = \<lparr>label = lbl,
                 patches = map (\<lambda>(c, h). \<lparr>bar_x = c - width / 2, bar_width = width,
                                          bar_height = h\<rparr>) (zip x hs)\<rparr>"
    by (auto simp: ax_bar_def bnd_Inr_iff split: if_splits)
  from hs have m: "map as_float64 height = map Inr hs" by (simp add: heights_Inr)
  note n = map_eq_map_Inr_nth [OF m]
  show "label c = lbl" by (simp add: c)
  show "length (patches c) = length x" by (simp add: c len)
  show "length height = length x" using n len by simp
  show "\<forall>i<length x. bar_x (patches c ! i) = x ! i - width / 2
            \<and> bar_width (patches c ! i) = width
            \<and> as_float64 (height ! i) = Inr (bar_height (patches c ! i))"
    using n len by (simp add: c)
qed

lemma render_Inr:
  assumes "render s = Inr fig"
  obtains rps1 rps2 lat1 lat2 where
    "ax_bar (map (\<lambda>v. v - (35 / 100) / 2) (np_arange (length (framework_names s))))
        (rps_no_schema s) (35 / 100) ''No Schema'' = Inr rps1"
    "ax_bar (map (\<lambda>v. v + (35 / 100) / 2) (np_arange (length (framework_names s))))
        (rps_schema s) (35 / 100) ''With Schema'' = Inr rps2"
    "ax_bar (map (\<lambda>v. v - (35 / 100) / 2) (np_arange (length (framework_names s))))
        (latency_no_schema s) (35 / 100) ''No Schema'' = Inr lat1"
    "ax_bar (map (\<lambda>v. v + (35 / 100) / 2) (np_arange (length (framework_names s))))
        (latency_schema s) (35 / 100) ''With Schema'' = Inr lat2"
    "containers (ax1 fig) = [rps1, rps2]"
    "containers (ax2 fig) = [lat1, lat2]"
    "texts (ax1 fig) = value_labels (\<lambda>height. format_grouped (py_int height)) [rps1, rps2]"
    "texts (ax2 fig) = value_labels format_2f [lat1, lat2]"
    "xticks (ax1 fig) = np_arange (length (framework_names s))"
    "xticks (ax2 fig) = np_arange (length (framework_names s))"
    "xticklabels (ax1 fig) = framework_names s"
    "xticklabels (ax2 fig) = framework_names s"
  using assms unfolding render_def Let_def bnd_Inr_iff by auto

lemma script_None:
  "script w = (None, w') \<longleftrightarrow>
     (\<exists>fig. build_figure (files w) = Inr fig \<and>
        w' = w\<lparr>files := (files w)(output_path \<mapsto> Image fig),
                stdout := stdout w @ [confirmation]\<rparr>)"
  by (auto simp: script_def split: sum.splits)

lemma script_Some:
  "script w = (Some e, w') \<longleftrightarrow> build_figure (files w) = Inl e \<and> w' = w"
  by (auto simp: script_def split: sum.splits)

lemma value_labels_pair:
  "value_labels fmt [c1, c2] =
     map (\<lambda>b. \<lparr>text_x = bar_x b + bar_width b / 2, text_y = bar_height b,
                text_s = fmt (bar_height b)\<rparr>) (patches c1 @ patches c2)"
  by (simp add: value_labels_def)

section \<open>The sample run, evaluated\<close>

lemma float_0002: "float_of_rat (1 / 500) = Fin (Num (1152921504606847 / 576460752303423488))"
  by code_simp

lemma float_00025: "float_of_rat (1 / 400) = Fin (Num (5764607523034235 / 2305843009213693952))"
  by code_simp

lemma float_500009: "float_of_rat (500009 / 10) = Fin (Num (6872071368658125 / 137438953472))"
  by code_simp

lemma ms_0002: "float_mul_1000 (Fin (Num (1152921504606847 / 576460752303423488))) = Fin (Num 2)"
  by code_simp

lemma ms_00025: "float_mul_1000 (Fin (Num (5764607523034235 / 2305843009213693952))) = Fin (Num (5 / 2))"
  by code_simp

lemma sample_collect: "collect sample_files frameworks no_series = Inr sample_series"
  by (simp add: frameworks_def collect_entry_def sample_files_def result_document_def
      no_series_def list_item_def read_json_file_def summary_item_def bnd_def
      float_0002 float_00025 float_500009 ms_0002 ms_00025 sample_series_def
      del: float_mul_1000.simps)

lemma sample_render: "\<exists>fig. render sample_series = Inr fig"
  by (simp add: render_def sample_series_def ax_bar_def bnd_def np_arange_def Let_def)

section \<open>The aggregation pass\<close>

text \<open>
  C2. After the aggregation pass the four aggregated sequences and the sequence of
  framework names have the same length, and so they have after every iteration: when
  the pass over \<open>entries\<close> completes, the pass over its first \<open>k\<close> entries (the
  state at the end of iteration \<open>k\<close>) has put exactly \<open>k\<close> elements in each of the five.
\<close>

theorem aggregated_lengths_equal:
  assumes "collect fs entries no_series = Inr s" and "k \<le> length entries"
  shows "\<exists>sk. collect fs (take k entries) no_series = Inr sk
            \<and> length (rps_no_schema sk) = k
            \<and> length (rps_schema sk) = k
            \<and> length (latency_no_schema sk) = k
            \<and> length (latency_schema sk) = k
            \<and> length (framework_names sk) = k"
proof -
  have "collect fs (take k entries @ drop k entries) no_series = Inr s"
    using assms(1) by simp
  then obtain sk where sk: "collect fs (take k entries) no_series = Inr sk"
    unfolding collect_append bnd_Inr_iff by blast
  have "length (take k entries) = k" using assms(2) by simp
  with collect_from_empty(1-5) [OF sk] have
    "length (rps_no_schema sk) = k" "length (rps_schema sk) = k"
    "length (latency_no_schema sk) = k" "length (latency_schema sk) = k"
    "length (framework_names sk) = k"
    by simp_all
  with sk show ?thesis by blast
qed

theorem aggregated_lengths_equal_witness:
  "collect sample_files frameworks no_series = Inr sample_series
   \<and> 3 \<le> length frameworks
   \<and> (\<exists>sk. collect sample_files (take 3 frameworks) no_series = Inr sk
            \<and> length (rps_no_schema sk) = 3
            \<and> length (rps_schema sk) = 3
            \<and> length (latency_no_schema sk) = 3
            \<and> length (latency_schema sk) = 3
            \<and> length (framework_names sk) = 3)"
proof -
  have k: "3 \<le> length frameworks" by (simp add: frameworks_def)
  show ?thesis
    using sample_collect k aggregated_lengths_equal [OF sample_collect k] by blast
qed

lemma sample_script: "fst (script sample_world) = None"
proof -
  obtain fig where "render sample_series = Inr fig" using sample_render by blast
  then have "build_figure sample_files = Inr fig"
    by (simp add: build_figure_def sample_collect bnd_def)
  then show ?thesis by (simp add: script_def sample_world_def)
qed

lemma np_arange_nth: "i < n \<Longrightarrow> np_arange n ! i = of_nat i"
  by (simp add: np_arange_def)

lemma length_np_arange: "length (np_arange n) = n"
  by (simp add: np_arange_def)

lemma build_figure_Inr:
  assumes "build_figure fs = Inr fig"
  obtains s rps1 rps2 lat1 lat2 where
    "collect fs frameworks no_series = Inr s"
    "containers (ax1 fig) = [rps1, rps2]"
    "containers (ax2 fig) = [lat1, lat2]"
    "texts (ax1 fig) = value_labels (\<lambda>height. format_grouped (py_int height)) [rps1, rps2]"
    "texts (ax2 fig) = value_labels format_2f [lat1, lat2]"
    "xticks (ax1 fig) = np_arange (length frameworks)"
    "xticks (ax2 fig) = np_arange (length frameworks)"
    "xticklabels (ax1 fig) = map fst frameworks"
    "xticklabels (ax2 fig) = map fst frameworks"
    "label rps1 = ''No Schema''" "label rps2 = ''With Schema''"
    "label lat1 = ''No Schema''" "label lat2 = ''With Schema''"
    "length (patches rps1) = length frameworks" "length (patches rps2) = length frameworks"
    "length (patches lat1) = length frameworks" "length (patches lat2) = length frameworks"
    "\<forall>i<length frameworks. bar_x (patches rps1 ! i) = of_nat i - 35 / 100
        \<and> bar_width (patches rps1 ! i) = 35 / 100
        \<and> as_float64 (rps_no_schema s ! i) = Inr (bar_height (patches rps1 ! i))"
    "\<forall>i<length frameworks. bar_x (patches rps2 ! i) = of_nat i
        \<and> bar_width (patches rps2 ! i) = 35 / 100
        \<and> as_float64 (rps_schema s ! i) = Inr (bar_height (patches rps2 ! i))"
    "\<forall>i<length frameworks. bar_x (patches lat1 ! i) = of_nat i - 35 / 100
        \<and> bar_width (patches lat1 ! i) = 35 / 100
        \<and> as_float64 (latency_no_schema s ! i) = Inr (bar_height (patches lat1 ! i))"
    "\<forall>i<length frameworks. bar_x (patches lat2 ! i) = of_nat i
        \<and> bar_width (patches lat2 ! i) = 35 / 100
        \<and> as_float64 (latency_schema s ! i) = Inr (bar_height (patches lat2 ! i))"
proof -
  from assms obtain s where s: "collect fs frameworks no_series = Inr s"
    and r: "render s = Inr fig"
    by (auto simp: build_figure_def bnd_Inr_iff)
  have n: "length (framework_names s) = length frameworks"
    using collect_from_empty(1) [OF s] by simp
  from r obtain rps1 rps2 lat1 lat2 where b:
    "ax_bar (map (\<lambda>v. v - (35 / 100) / 2) (np_arange (length (framework_names s))))
        (rps_no_schema s) (35 / 100) ''No Schema'' = Inr rps1"
    "ax_bar (map (\<lambda>v. v + (35 / 100) / 2) (np_arange (length (framework_names s))))
        (rps_schema s) (35 / 100) ''With Schema'' = Inr rps2"
    "ax_bar (map (\<lambda>v. v - (35 / 100) / 2) (np_arange (length (framework_names s))))
        (latency_no_schema s) (35 / 100) ''No Schema'' = Inr lat1"
    "ax_bar (map (\<lambda>v. v + (35 / 100) / 2) (np_arange (length (framework_names s))))
        (latency_schema s) (35 / 100) ''With Schema'' = Inr lat2"
    and f:
    "containers (ax1 fig) = [rps1, rps2]"
    "containers (ax2 fig) = [lat1, lat2]"
    "texts (ax1 fig) = value_labels (\<lambda>height. format_grouped (py_int height)) [rps1, rps2]"
    "texts (ax2 fig) = value_labels format_2f [lat1, lat2]"
    "xticks (ax1 fig) = np_arange (length (framework_names s))"
    "xticks (ax2 fig) = np_arange (length (framework_names s))"
    "xticklabels (ax1 fig) = framework_names s"
    "xticklabels (ax2 fig) = framework_names s"
    by (rule render_Inr)
  show thesis
  proof (rule that [OF s f(1-4)])
    show "xticks (ax1 fig) = np_arange (length frameworks)" using f(5) n by simp
    show "xticks (ax2 fig) = np_arange (length frameworks)" using f(6) n by simp
    show "xticklabels (ax1 fig) = map fst frameworks"
      using f(7) collect_from_empty(1) [OF s] by simp
    show "xticklabels (ax2 fig) = map fst frameworks"
      using f(8) collect_from_empty(1) [OF s] by simp
    show "label rps1 = ''No Schema''" using ax_bar_Inr(1) [OF b(1)] .
    show "label rps2 = ''With Schema''" using ax_bar_Inr(1) [OF b(2)] .
    show "label lat1 = ''No Schema''" using ax_bar_Inr(1) [OF b(3)] .
    show "label lat2 = ''With Schema''" using ax_bar_Inr(1) [OF b(4)] .
    show "length (patches rps1) = length frameworks"
      using ax_bar_Inr(2) [OF b(1)] n by (simp add: length_np_arange)
    show "length (patches rps2) = length frameworks"
      using ax_bar_Inr(2) [OF b(2)] n by (simp add: length_np_arange)
    show "length (patches lat1) = length frameworks"
      using ax_bar_Inr(2) [OF b(3)] n by (simp add: length_np_arange)
    show "length (patches lat2) = length frameworks"
      using ax_bar_Inr(2) [OF b(4)] n by (simp add: length_np_arange)
    show "\<forall>i<length frameworks. bar_x (patches rps1 ! i) = of_nat i - 35 / 100
        \<and> bar_width (patches rps1 ! i) = 35 / 100
        \<and> as_float64 (rps_no_schema s ! i) = Inr (bar_height (patches rps1 ! i))"
      using ax_bar_Inr(4) [OF b(1)] n by (simp add: length_np_arange np_arange_nth)
    show "\<forall>i<length frameworks. bar_x (patches rps2 ! i) = of_nat i
        \<and> bar_width (patches rps2 ! i) = 35 / 100
        \<and> as_float64 (rps_schema s ! i) = Inr (bar_height (patches rps2 ! i))"
      using ax_bar_Inr(4) [OF b(2)] n by (simp add: length_np_arange np_arange_nth)
    show "\<forall>i<length frameworks. bar_x (patches lat1 ! i) = of_nat i - 35 / 100
        \<and> bar_width (patches lat1 ! i) = 35 / 100
        \<and> as_float64 (latency_no_schema s ! i) = Inr (bar_height (patches lat1 ! i))"
      using ax_bar_Inr(4) [OF b(3)] n by (simp add: length_np_arange np_arange_nth)
    show "\<forall>i<length frameworks. bar_x (patches lat2 ! i) = of_nat i
        \<and> bar_width (patches lat2 ! i) = 35 / 100
        \<and> as_float64 (latency_schema s ! i) = Inr (bar_height (patches lat2 ! i))"
      using ax_bar_Inr(4) [OF b(4)] n by (simp add: length_np_arange np_arange_nth)
  qed
qed

section \<open>What the bars show\<close>



text \<open>
  C5. In both panels of a saved chart there are as many x-axis ticks as configured
  framework entries, at 0, 1, 2, ..., and the tick labels are the framework names in
  the order of the configuration.
\<close>

theorem ticks_are_framework_names:
  assumes "script w = (None, w')"
  shows "\<exists>fig. files w' output_path = Some (Image fig)
           \<and> length (xticks (ax1 fig)) = length frameworks
           \<and> length (xticks (ax2 fig)) = length frameworks
           \<and> length (xticklabels (ax1 fig)) = length frameworks
           \<and> length (xticklabels (ax2 fig)) = length frameworks
           \<and> xticks (ax1 fig) = map of_nat [0..<length frameworks]
           \<and> xticks (ax2 fig) = map of_nat [0..<length frameworks]
           \<and> xticklabels (ax1 fig) = map fst frameworks
           \<and> xticklabels (ax2 fig) = map fst frameworks
           \<and> map fst frameworks
               = [''Bun'', ''Elysia'', ''Encore'', ''Express'', ''Fastify'', ''Fastify v5'', ''Hono'']"
proof -
  from assms obtain fig where fig: "build_figure (files w) = Inr fig"
    and w': "w' = w\<lparr>files := (files w)(output_path \<mapsto> Image fig),
                     stdout := stdout w @ [confirmation]\<rparr>"
    unfolding script_None by blast
  from fig obtain s :: series and rps1 rps2 lat1 lat2 :: container where
    t: "xticks (ax1 fig) = np_arange (length frameworks)"
       "xticks (ax2 fig) = np_arange (length frameworks)"
       "xticklabels (ax1 fig) = map fst frameworks"
       "xticklabels (ax2 fig) = map fst frameworks"
    by (rule build_figure_Inr)
  have saved: "files w' output_path = Some (Image fig)" by (simp add: w')
  have names: "map fst frameworks
      = [''Bun'', ''Elysia'', ''Encore'', ''Express'', ''Fastify'', ''Fastify v5'', ''Hono'']"
    by (simp add: frameworks_def)
  have "length (xticks (ax1 fig)) = length frameworks"
       "length (xticks (ax2 fig)) = length frameworks"
       "length (xticklabels (ax1 fig)) = length frameworks"
       "length (xticklabels (ax2 fig)) = length frameworks"
       "xticks (ax1 fig) = map of_nat [0..<length frameworks]"
       "xticks (ax2 fig) = map of_nat [0..<length frameworks]"
    by (simp_all add: t np_arange_def)
  with saved names t(3,4) show ?thesis
    by (intro exI [of _ fig] conjI) assumption+
qed

theorem ticks_are_framework_names_witness:
  "script sample_world = (None, snd (script sample_world))
   \<and> (\<exists>fig. files (snd (script sample_world)) output_path = Some (Image fig)
           \<and> length (xticks (ax1 fig)) = length frameworks
           \<and> length (xticks (ax2 fig)) = length frameworks
           \<and> length (xticklabels (ax1 fig)) = length frameworks
           \<and> length (xticklabels (ax2 fig)) = length frameworks
           \<and> xticks (ax1 fig) = map of_nat [0..<length frameworks]
           \<and> xticks (ax2 fig) = map of_nat [0..<length frameworks]
           \<and> xticklabels (ax1 fig) = map fst frameworks
           \<and> xticklabels (ax2 fig) = map fst frameworks
           \<and> map fst frameworks
               = [''Bun'', ''Elysia'', ''Encore'', ''Express'', ''Fastify'', ''Fastify v5'', ''Hono''])"
proof -
  have run: "script sample_world = (None, snd (script sample_world))"
    using sample_script by (metis prod.collapse)
  show ?thesis using run ticks_are_framework_names [OF run] by blast
qed

section \<open>Runs that stop\<close>

lemma raises_only_Inr: "raises_only (Inr x)"
  by (simp add: raises_only_def)

lemma raises_only_bnd:
  "raises_only m \<Longrightarrow> (\<And>x. raises_only (f x)) \<Longrightarrow> raises_only (bnd m f)"
  by (auto simp: raises_only_def bnd_Inl_iff)

lemma raises_only_list_item: "raises_only (list_item xs i)"
  by (simp add: raises_only_def list_item_def)

lemma raises_only_read_json_file: "raises_only (read_json_file fs f)"
  by (auto simp: raises_only_def read_json_file_def split: option.splits file_content.splits)

lemma raises_only_getitem: "raises_only (getitem d k)"
  by (cases d) (auto simp: raises_only_def split: option.splits)

lemma raises_only_summary_item: "raises_only (summary_item d k)"
  unfolding summary_item_def by (intro raises_only_bnd raises_only_getitem)

lemma raises_only_mul_1000: "raises_only (mul_1000 v)"
  by (cases v) (simp_all add: raises_only_def)

lemma raises_only_collect_entry: "raises_only (collect_entry fs entry s)"
  unfolding collect_entry_def Let_def
  by (intro raises_only_bnd raises_only_list_item raises_only_read_json_file
      raises_only_summary_item raises_only_mul_1000 raises_only_Inr)

lemma raises_only_collect: "raises_only (collect fs es s)"
proof (induction es arbitrary: s)
  case Nil
  show ?case by (simp add: raises_only_Inr)
next
  case (Cons e es)
  show ?case by (simp add: raises_only_bnd raises_only_collect_entry Cons.IH)
qed

lemma summary_item_Inr:
  "summary_item d k = Inr v \<longleftrightarrow>
     (\<exists>kvs kvs'. d = JObj kvs \<and> map_of kvs ''summary'' = Some (JObj kvs') \<and> map_of kvs' k = Some v)"
proof (cases d)
  case (JObj kvs)
  show ?thesis
  proof (cases "map_of kvs ''summary''")
    case None
    with JObj show ?thesis by (simp add: summary_item_def bnd_def)
  next
    case (Some s)
    with JObj show ?thesis
      by (cases s) (auto simp: summary_item_def bnd_def split: option.splits)
  qed
qed (simp_all add: summary_item_def bnd_def)

lemma metric_Inr:
  "metric fs entry j k = Inr v \<longleftrightarrow>
     (\<exists>f d. list_item (snd entry) j = Inr f \<and> read_json_file fs f = Inr d
            \<and> summary_item d k = Inr v)"
  by (simp add: metric_def bnd_Inr_iff)

lemma input_file_position:
  assumes "f \<in> set (concat (map snd frameworks))"
  shows "\<exists>i<length frameworks. \<exists>j<2. list_item (snd (frameworks ! i)) j = Inr f"
proof -
  from assms obtain e where e: "e \<in> set frameworks" and f: "f \<in> set (snd e)" by auto
  from e obtain i where i: "i < length frameworks" "frameworks ! i = e"
    by (auto simp: in_set_conv_nth)
  have "\<forall>e\<in>set frameworks. length (snd e) = 2" by (simp add: frameworks_def)
  with e have len: "length (snd e) = 2" by blast
  from f obtain j where j: "j < length (snd e)" "snd e ! j = f"
    by (auto simp: in_set_conv_nth)
  with len i have "i < length frameworks \<and> j < 2 \<and> list_item (snd (frameworks ! i)) j = Inr f"
    by (simp add: list_item_def)
  then show ?thesis by blast
qed

lemma collect_reads_all:
  assumes "collect fs frameworks no_series = Inr s"
    and "f \<in> set (concat (map snd frameworks))"
  shows "\<exists>d r a l. read_json_file fs f = Inr d \<and> summary_item d ''requestsPerSec'' = Inr r
            \<and> summary_item d ''average'' = Inr a \<and> mul_1000 a = Inr l"
proof -
  from input_file_position [OF assms(2)] obtain i j where
    i: "i < length frameworks" and j: "j < 2"
    and f: "list_item (snd (frameworks ! i)) j = Inr f"
    by blast
  note m = collect_from_empty(6-9) [OF assms(1)]
  from j have "j = 0 \<or> j = 1" by auto
  then have "(\<exists>r. metric fs (frameworks ! i) j ''requestsPerSec'' = Inr r)
      \<and> (\<exists>l. latency_ms fs (frameworks ! i) j = Inr l)"
    using m i by auto
  then obtain r l where r: "metric fs (frameworks ! i) j ''requestsPerSec'' = Inr r"
    and l: "latency_ms fs (frameworks ! i) j = Inr l"
    by blast
  from l obtain a where a: "metric fs (frameworks ! i) j ''average'' = Inr a"
    and la: "mul_1000 a = Inr l"
    by (auto simp: latency_ms_def bnd_Inr_iff)
  from r f obtain d where d: "read_json_file fs f = Inr d"
    and dr: "summary_item d ''requestsPerSec'' = Inr r"
    by (auto simp: metric_Inr)
  from a f d have "summary_item d ''average'' = Inr a" by (auto simp: metric_Inr)
  with d dr la show ?thesis by blast
qed

lemma collect_stops_script:
  assumes "\<And>s. collect (files w) frameworks no_series \<noteq> Inr s"
  shows "\<exists>e. script w = (Some (Raise e), w)"
proof -
  from assms obtain a where a: "collect (files w) frameworks no_series = Inl a"
    by (cases "collect (files w) frameworks no_series") auto
  with raises_only_collect [of "files w" frameworks no_series]
  obtain e where "a = Raise e" by (auto simp: raises_only_def)
  with a show ?thesis by (simp add: script_def build_figure_def bnd_def)
qed

text \<open>
  C3. If one of the configured input files is missing, cannot be opened or is not valid
  JSON (anything but a JSON document), the run ends with an exception and leaves the
  world as it found it: the output path is not written and no line is printed.
\<close>

theorem unreadable_input_aborts:
  assumes "f \<in> set (concat (map snd frameworks))"
    and "files w f = None \<or> files w f = Some Unreadable \<or> files w f = Some Malformed
           \<or> (\<exists>fig. files w f = Some (Image fig))"
  shows "\<exists>e. script w = (Some (Raise e), w)
           \<and> files (snd (script w)) output_path = files w output_path
           \<and> stdout (snd (script w)) = stdout w"
proof -
  from assms(2) have bad: "\<And>d. read_json_file (files w) f \<noteq> Inr d"
    by (auto simp: read_json_file_def)
  have "collect (files w) frameworks no_series \<noteq> Inr s" for s
    using collect_reads_all [OF _ assms(1)] bad by blast
  from collect_stops_script [OF this] obtain e where "script w = (Some (Raise e), w)"
    by blast
  then show ?thesis by simp
qed

theorem unreadable_input_aborts_witness:
  "''hono_schema.json'' \<in> set (concat (map snd frameworks))
   \<and> (files (sample_world\<lparr>files := sample_files(''hono_schema.json'' := None)\<rparr>)
         ''hono_schema.json'' = None)
   \<and> (\<exists>e. script (sample_world\<lparr>files := sample_files(''hono_schema.json'' := None)\<rparr>)
             = (Some (Raise e), sample_world\<lparr>files := sample_files(''hono_schema.json'' := None)\<rparr>)
           \<and> files (snd (script (sample_world\<lparr>files := sample_files(''hono_schema.json'' := None)\<rparr>)))
                output_path
              = files (sample_world\<lparr>files := sample_files(''hono_schema.json'' := None)\<rparr>) output_path
           \<and> stdout (snd (script (sample_world\<lparr>files := sample_files(''hono_schema.json'' := None)\<rparr>)))
              = stdout (sample_world\<lparr>files := sample_files(''hono_schema.json'' := None)\<rparr>))"
proof -
  let ?w = "sample_world\<lparr>files := sample_files(''hono_schema.json'' := None)\<rparr>"
  have f: "''hono_schema.json'' \<in> set (concat (map snd frameworks))"
    by (simp add: frameworks_def)
  have m: "files ?w ''hono_schema.json'' = None" by simp
  have m': "files ?w ''hono_schema.json'' = None \<or> files ?w ''hono_schema.json'' = Some Unreadable
      \<or> files ?w ''hono_schema.json'' = Some Malformed
      \<or> (\<exists>fig. files ?w ''hono_schema.json'' = Some (Image fig))"
    using m by blast
  show ?thesis using f m unreadable_input_aborts [OF f m'] by blast
qed

text \<open>
  C4. If one of the configured input files is a JSON document without the field
  \<open>summary.requestsPerSec\<close> or without the field \<open>summary.average\<close>, the run ends with
  an exception: no value is put in its place, the output path is not written and no
  line is printed.
\<close>

theorem missing_field_aborts:
  assumes "f \<in> set (concat (map snd frameworks))"
    and "files w f = Some (Document d)"
    and "k = ''requestsPerSec'' \<or> k = ''average''"
    and "\<not> (\<exists>kvs kvs' v. d = JObj kvs \<and> map_of kvs ''summary'' = Some (JObj kvs')
               \<and> map_of kvs' k = Some v)"
  shows "\<exists>e. script w = (Some (Raise e), w)
           \<and> files (snd (script w)) output_path = files w output_path
           \<and> stdout (snd (script w)) = stdout w"
proof -
  have rd: "read_json_file (files w) f = Inr d"
    using assms(2) by (simp add: read_json_file_def)
  have missing: "\<And>v. summary_item d k \<noteq> Inr v"
    using assms(4) by (simp add: summary_item_Inr)
  have "collect (files w) frameworks no_series \<noteq> Inr s" for s
  proof
    assume "collect (files w) frameworks no_series = Inr s"
    from collect_reads_all [OF this assms(1)] rd obtain r a where
      "summary_item d ''requestsPerSec'' = Inr r" "summary_item d ''average'' = Inr a"
      by auto
    with assms(3) missing show False by auto
  qed
  from collect_stops_script [OF this] obtain e where "script w = (Some (Raise e), w)"
    by blast
  then show ?thesis by simp
qed

theorem missing_field_aborts_witness:
  "''hono_schema.json'' \<in> set (concat (map snd frameworks))
   \<and> files (sample_world\<lparr>files := sample_files(''hono_schema.json'' \<mapsto>
          Document (JObj [(''summary'', JObj [(''requestsPerSec'', JInt 1)])]))\<rparr>)
        ''hono_schema.json''
       = Some (Document (JObj [(''summary'', JObj [(''requestsPerSec'', JInt 1)])]))
   \<and> (''average'' = ''requestsPerSec'' \<or> ''average'' = ''average'')
   \<and> \<not> (\<exists>kvs kvs' v. JObj [(''summary'', JObj [(''requestsPerSec'', JInt 1)])] = JObj kvs
               \<and> map_of kvs ''summary'' = Some (JObj kvs') \<and> map_of kvs' ''average'' = Some v)
   \<and> (\<exists>e. script (sample_world\<lparr>files := sample_files(''hono_schema.json'' \<mapsto>
                 Document (JObj [(''summary'', JObj [(''requestsPerSec'', JInt 1)])]))\<rparr>)
             = (Some (Raise e), sample_world\<lparr>files := sample_files(''hono_schema.json'' \<mapsto>
                 Document (JObj [(''summary'', JObj [(''requestsPerSec'', JInt 1)])]))\<rparr>))"
proof -
  let ?d = "JObj [(''summary'', JObj [(''requestsPerSec'', JInt 1)])]"
  let ?w = "sample_world\<lparr>files := sample_files(''hono_schema.json'' \<mapsto> Document ?d)\<rparr>"
  have f: "''hono_schema.json'' \<in> set (concat (map snd frameworks))"
    by (simp add: frameworks_def)
  have d: "files ?w ''hono_schema.json'' = Some (Document ?d)" by simp
  have k: "''average'' = ''requestsPerSec'' \<or> ''average'' = ''average''" by simp
  have n: "\<not> (\<exists>kvs kvs' v. ?d = JObj kvs \<and> map_of kvs ''summary'' = Some (JObj kvs')
               \<and> map_of kvs' ''average'' = Some v)"
    by auto
  from missing_field_aborts [OF f d k n] have "\<exists>e. script ?w = (Some (Raise e), ?w)"
    by blast
  with f d k n show ?thesis by blast
qed

section \<open>Two runs on the same inputs\<close>

lemma read_json_file_cong: "fs1 f = fs2 f \<Longrightarrow> read_json_file fs1 f = read_json_file fs2 f"
  by (simp add: read_json_file_def)

lemma bnd_cong:
  "m = m' \<Longrightarrow> (\<And>x. m' = Inr x \<Longrightarrow> f x = g x) \<Longrightarrow> bnd m f = bnd m' g"
  by (cases m') (simp_all add: bnd_def)

lemma collect_entry_cong:
  assumes "\<forall>f\<in>set (snd e). fs1 f = fs2 f"
  shows "collect_entry fs1 e s = collect_entry fs2 e s"
proof -
  have r: "read_json_file fs1 f = read_json_file fs2 f" if "list_item (snd e) j = Inr f" for j f
  proof -
    from that have "f \<in> set (snd e)" by (auto simp: list_item_def split: if_splits)
    with assms have "fs1 f = fs2 f" by blast
    then show ?thesis by (rule read_json_file_cong)
  qed
  show ?thesis
    unfolding collect_entry_def Let_def
    by (intro bnd_cong refl) (erule r)+
qed

lemma collect_cong:
  "\<forall>f\<in>set (concat (map snd es)). fs1 f = fs2 f \<Longrightarrow> collect fs1 es s = collect fs2 es s"
proof (induction es arbitrary: s)
  case Nil
  show ?case by simp
next
  case (Cons e es)
  have e: "collect_entry fs1 e s = collect_entry fs2 e s"
    using Cons.prems by (intro collect_entry_cong) simp
  have rest: "collect fs1 es s' = collect fs2 es s'" for s'
    using Cons.prems by (intro Cons.IH) simp
  show ?case
    unfolding collect.simps by (rule bnd_cong) (rule e, rule rest)
qed

lemma output_path_not_input: "output_path \<notin> set (concat (map snd frameworks))"
  by (simp add: output_path_def frameworks_def)

lemma script_keeps_inputs:
  "f \<in> set (concat (map snd frameworks)) \<Longrightarrow> files (snd (script w)) f = files w f"
  using output_path_not_input by (auto simp: script_def split: sum.splits)

text \<open>
  C9. The run is deterministic: two executions in worlds whose configured input files
  have the same contents produce the same aggregated sequences (or stop the same way),
  the same figure with its bar values and labels, the same outcome and the same console
  line. A run leaves its input files as they are, so this covers running twice.
\<close>

theorem runs_on_same_inputs_agree:
  assumes "\<forall>f\<in>set (concat (map snd frameworks)). files w1 f = files w2 f"
  shows "collect (files w1) frameworks no_series = collect (files w2) frameworks no_series
       \<and> build_figure (files w1) = build_figure (files w2)
       \<and> fst (script w1) = fst (script w2)
       \<and> drop (length (stdout w1)) (stdout (snd (script w1)))
           = drop (length (stdout w2)) (stdout (snd (script w2)))
       \<and> (fst (script w1) = None \<longrightarrow>
             files (snd (script w1)) output_path = files (snd (script w2)) output_path)
       \<and> (\<forall>f\<in>set (concat (map snd frameworks)). files (snd (script w1)) f = files w1 f)"
proof -
  have c: "collect (files w1) frameworks no_series = collect (files w2) frameworks no_series"
    using assms by (rule collect_cong)
  then have b: "build_figure (files w1) = build_figure (files w2)"
    by (simp add: build_figure_def)
  have "fst (script w1) = fst (script w2)"
    using b by (simp add: script_def split: sum.splits)
  moreover have "drop (length (stdout w1)) (stdout (snd (script w1)))
           = drop (length (stdout w2)) (stdout (snd (script w2)))"
    using b by (simp add: script_def split: sum.splits)
  moreover have "fst (script w1) = None \<longrightarrow>
             files (snd (script w1)) output_path = files (snd (script w2)) output_path"
    using b by (simp add: script_def split: sum.splits)
  moreover have "\<forall>f\<in>set (concat (map snd frameworks)). files (snd (script w1)) f = files w1 f"
    using script_keeps_inputs by blast
  ultimately show ?thesis using c b by blast
qed

theorem runs_on_same_inputs_agree_witness:
  "map (files sample_world) (concat (map snd frameworks))
     = map (files (snd (script sample_world))) (concat (map snd frameworks))
   \<and> collect (files sample_world) frameworks no_series
       = collect (files (snd (script sample_world))) frameworks no_series
   \<and> build_figure (files sample_world) = build_figure (files (snd (script sample_world)))
   \<and> fst (script sample_world) = None
   \<and> fst (script (snd (script sample_world))) = None
   \<and> drop (length (stdout sample_world)) (stdout (snd (script sample_world)))
       = drop (length (stdout (snd (script sample_world))))
           (stdout (snd (script (snd (script sample_world)))))
   \<and> files (snd (script sample_world)) output_path
       = files (snd (script (snd (script sample_world)))) output_path"
proof -
  have h: "\<forall>f\<in>set (concat (map snd frameworks)).
       files sample_world f = files (snd (script sample_world)) f"
    using script_keeps_inputs [of _ sample_world] by simp
  then have m: "map (files sample_world) (concat (map snd frameworks))
     = map (files (snd (script sample_world))) (concat (map snd frameworks))"
    by simp
  note t = runs_on_same_inputs_agree [OF h]
  have n: "fst (script (snd (script sample_world))) = None"
    using t sample_script by simp
  have o: "files (snd (script sample_world)) output_path
       = files (snd (script (snd (script sample_world)))) output_path"
    using t sample_script by blast
  show ?thesis using m t sample_script n o by blast
qed

end
